theory Spec2Isabelle
  imports Complex_Main "HOL-Library.Word"
begin

section \<open>JavaScript values used by the music engine\<close>

text \<open>
  JavaScript numbers are IEEE doubles. The model computes with \<^typ>\<open>real\<close> and
  \<^typ>\<open>int\<close>: every finite double is a real, and the constants of the source are
  written as the decimal fractions they denote. \<open>NaN\<close> (what arithmetic on
  \<open>undefined\<close> yields) has no real counterpart and is modelled by \<open>None\<close> where the
  source can produce it. \<open>Math.round\<close> rounds half-way cases towards plus infinity,
  \<open>Math.floor\<close> is the floor, and the conversion of a number to an integer typed-array
  element truncates towards zero.

  A product of doubles is the real product rounded to the nearest double, ties to the
  even significand, and a decimal literal is the nearest double to the fraction it
  writes. The tempo is rounded to an integer straight after such a product, so there
  the rounding to a double is modelled by \<open>to_double\<close>: 53 significant bits, with
  the spacing of the subnormal numbers below \<open>2 ^ -1022\<close>. (Magnitudes from
  \<open>2 ^ 1024\<close> on, where a double is infinite, are outside the model.)
\<close>

definition round_half_even :: "real \<Rightarrow> int" where
  "round_half_even x =
     (let f = \<lfloor>x\<rfloor>; d = x - real_of_int f
      in if d < 1 / 2 then f else if 1 / 2 < d then f + 1 else if even f then f else f + 1)"

definition to_double :: "real \<Rightarrow> real" where
  "to_double x =
     (if x = 0 then 0
      else (let e = max (\<lfloor>log 2 \<bar>x\<bar>\<rfloor> - 52) (- 1074)
            in real_of_int (round_half_even (x / 2 powr real_of_int e)) *
               2 powr real_of_int e))"

definition js_round :: "real \<Rightarrow> int" where
  "js_round x = \<lfloor>x + 1 / 2\<rfloor>"

definition js_trunc :: "real \<Rightarrow> int" where
  "js_trunc x = (if 0 \<le> x then \<lfloor>x\<rfloor> else \<lceil>x\<rceil>)"

text \<open>The remainder operator \<open>%\<close> takes the sign of the dividend.\<close>

definition js_rem :: "int \<Rightarrow> int \<Rightarrow> int" where
  "js_rem a b = sgn a * (\<bar>a\<bar> mod \<bar>b\<bar>)"

text \<open>A number that may be \<open>NaN\<close>; \<open>xs[i]\<close> outside the array is \<open>undefined\<close>.\<close>

type_synonym jsnum = "int option"

definition js_index :: "'a list \<Rightarrow> nat \<Rightarrow> 'a option" where
  "js_index xs i = (if i < length xs then Some (xs ! i) else None)"

definition js_at :: "jsnum list \<Rightarrow> nat \<Rightarrow> jsnum" where
  "js_at xs i = (case js_index xs i of Some v \<Rightarrow> v | None \<Rightarrow> None)"

definition js_add :: "jsnum \<Rightarrow> jsnum \<Rightarrow> jsnum" where
  "js_add a b = (case (a, b) of (Some x, Some y) \<Rightarrow> Some (x + y) | _ \<Rightarrow> None)"

definition js_sub :: "jsnum \<Rightarrow> jsnum \<Rightarrow> jsnum" where
  "js_sub a b = (case (a, b) of (Some x, Some y) \<Rightarrow> Some (x - y) | _ \<Rightarrow> None)"

definition js_rem12 :: "jsnum \<Rightarrow> jsnum" where
  "js_rem12 a = (case a of Some x \<Rightarrow> Some (js_rem x 12) | None \<Rightarrow> None)"

text \<open>
  \<open>Math.random()\<close> is a stream of numbers; each call takes the head. The source
  guarantees values in \<open>[0,1)\<close>; the model writes out what an index computed from a
  draw does when it falls outside the array.
\<close>

type_synonym rng = "nat \<Rightarrow> real"

definition random :: "rng \<Rightarrow> real \<times> rng" where
  "random r = (r 0, \<lambda>n. r (Suc n))"

datatype error = TypeError | RangeError

section \<open>Prompt tokenisation\<close>

text \<open>
  \<open>prompt.toLowerCase().split(/[\s,.-]+/)\<close>. Characters are 8-bit code units; the
  separators are the white space of that range, comma, full stop and hyphen. A run of
  separators splits once; a separator at either end leaves an empty word there.
\<close>

definition toLowerCase_char :: "char \<Rightarrow> char" where
  "toLowerCase_char c =
     (let n = (of_char c :: nat)
      in if (65 \<le> n \<and> n \<le> 90) \<or> (192 \<le> n \<and> n \<le> 222 \<and> n \<noteq> 215)
         then char_of (n + 32) else c)"

definition toLowerCase :: "string \<Rightarrow> string" where
  "toLowerCase s = map toLowerCase_char s"

definition is_space :: "char \<Rightarrow> bool" where
  "is_space c \<longleftrightarrow> (of_char c :: nat) \<in> {9, 10, 11, 12, 13, 32, 160}"

definition is_sep :: "char \<Rightarrow> bool" where
  "is_sep c \<longleftrightarrow> is_space c \<or> c \<in> set '',.-''"

text \<open>\<open>String.prototype.trim\<close>\<close>

definition trim :: "string \<Rightarrow> string" where
  "trim s = rev (dropWhile is_space (rev (dropWhile is_space s)))"

fun split_sep :: "bool \<Rightarrow> string \<Rightarrow> string \<Rightarrow> string list" where
  "split_sep insep cur [] = [cur]"
| "split_sep insep cur (c # cs) =
     (if is_sep c
      then (if insep then split_sep True cur cs else cur # split_sep True [] cs)
      else split_sep False (cur @ [c]) cs)"

definition prompt_words :: "string \<Rightarrow> string list" where
  "prompt_words prompt = split_sep False [] (toLowerCase prompt)"

text \<open>\<open>words.some(w => keywords.includes(w))\<close>\<close>

definition some_includes :: "string list \<Rightarrow> string list \<Rightarrow> bool" where
  "some_includes ws keywords \<longleftrightarrow> (\<exists>w \<in> set ws. w \<in> set keywords)"

section \<open>The music theory engine (professional-music-engine.ts)\<close>

datatype mood = Dreamy | Dark | Uplifting | Melancholic | Ethereal | Nostalgic

datatype style = AmbientTrap | Electronic | Trap | Ambient

datatype complexity = Simple | Medium | Complex

datatype harmonic_function = Tonic | Subdominant | Dominant | Predominant

datatype scale_name =
  NaturalMinor | HarmonicMinor | Dorian | Phrygian | Major | PentatonicMinor

record ChordProgression =
  roman :: string
  chord :: string
  intervals :: "jsnum list"
  tensions :: "string list"
  func :: harmonic_function
  duration :: int

text \<open>
  The records of the analysis. The \<open>description\<close> of a section and the constant
  \<open>form\<close> of a structure are texts that no computation reads; they are left out. The
  key is \<open>undefined\<close> (\<open>None\<close>) when the random index misses the key table.
\<close>

record Section =
  bars :: int

record Sections =
  intro :: Section
  verse :: Section
  chorus :: "Section option"
  bridge :: "Section option"
  outro :: Section

record ProfessionalSongStructure =
  sections :: Sections
  totalBars :: int

record MusicTheoryAnalysis =
  key :: "string option"
  scale :: "int list"
  chordProgression :: "ChordProgression list"
  songStructure :: ProfessionalSongStructure
  tempo :: int
  a_mood :: mood
  a_style :: style
  harmonicComplexity :: complexity

record Instruments =
  i_drums :: bool
  i_bass :: bool
  i_synths :: bool
  i_pads :: bool
  i_arps :: bool

text \<open>
  \<open>GenerationSettings\<close>. The numeric fields are JavaScript numbers; \<open>customPrompt\<close>
  is optional.
\<close>

record GenerationSettings =
  bass :: real
  pace :: real
  reverb :: real
  distortion :: real
  fadeIn :: real
  fadeOut :: real
  instruments :: Instruments
  mood :: mood
  customPrompt :: "string option"

text \<open>\<open>ii\<degree>\<close> and \<open>vii\<degree>\<close>: the degree sign is code unit 0xB0.\<close>

definition ii_dim :: string where
  "ii_dim = ''ii'' @ [CHR 0xB0]"

definition vii_dim :: string where
  "vii_dim = ''vii'' @ [CHR 0xB0]"

text \<open>
  \<open>CHORD_PROGRESSIONS['ambient-trap']\<close>: an object with the three keys \<open>dreamy\<close>,
  \<open>dark\<close> and \<open>uplifting\<close>; each entry lists the Roman numerals of its templates
  (the \<open>name\<close> and \<open>popularity\<close> fields are never read).
\<close>

definition CHORD_PROGRESSIONS :: "(mood \<times> string list list) list" where
  "CHORD_PROGRESSIONS =
    [(Dreamy, [ [''vi'', ''IV'', ''I'', ''V''],
               [''i'', ''VI'', ''III'', ''VII''],
               [''i'', ''v'', ''VI'', ''IV''] ]),
     (Dark, [ [''i'', ''VII'', ''VI'', ''VII''],
             [''i'', ii_dim, ''V'', ''i''],
             [''i'', ''VI'', ii_dim, ''V''] ]),
     (Uplifting, [ [''I'', ''V'', ''vi'', ''IV''],
                  [''I'', ''vi'', ''ii'', ''V''],
                  [''IV'', ''V'', ''vi'', ''I''] ])]"

definition SCALES :: "scale_name \<Rightarrow> int list" where
  "SCALES n = (case n of
       NaturalMinor \<Rightarrow> [0, 2, 3, 5, 7, 8, 10]
     | HarmonicMinor \<Rightarrow> [0, 2, 3, 5, 7, 8, 11]
     | Dorian \<Rightarrow> [0, 2, 3, 5, 7, 9, 10]
     | Phrygian \<Rightarrow> [0, 1, 3, 5, 7, 8, 10]
     | Major \<Rightarrow> [0, 2, 4, 5, 7, 9, 11]
     | PentatonicMinor \<Rightarrow> [0, 3, 5, 7, 10])"

definition moodKeywords :: "(mood \<times> string list) list" where
  "moodKeywords =
    [(Dreamy, [''dreamy'', ''ethereal'', ''floating'', ''soft'', ''gentle'', ''peaceful'',
               ''serene'', ''ambient'']),
     (Dark, [''dark'', ''mysterious'', ''brooding'', ''ominous'', ''gothic'', ''sinister'',
             ''moody'', ''shadow'']),
     (Uplifting, [''uplifting'', ''bright'', ''happy'', ''energetic'', ''positive'',
                  ''euphoric'', ''joyful'']),
     (Melancholic, [''sad'', ''melancholic'', ''tragic'', ''somber'', ''wistful'',
                    ''nostalgic'', ''longing'']),
     (Ethereal, [''ethereal'', ''ghostly'', ''spiritual'', ''otherworldly'',
                 ''transcendent'', ''celestial'']),
     (Nostalgic, [''nostalgic'', ''vintage'', ''retro'', ''memory'', ''reminiscent'',
                  ''yearning''])]"

text \<open>The \<open>for \<dots> of Object.entries\<close> loop: the first entry with a keyword among the words.\<close>

fun first_entry :: "string list \<Rightarrow> ('a \<times> string list) list \<Rightarrow> 'a option" where
  "first_entry ws [] = None"
| "first_entry ws ((m, keywords) # rest) =
     (if some_includes ws keywords then Some m else first_entry ws rest)"

definition extractAdvancedMood :: "string list \<Rightarrow> mood" where
  "extractAdvancedMood ws =
     (case first_entry ws moodKeywords of Some m \<Rightarrow> m | None \<Rightarrow> Dreamy)"

definition extractMusicStyle :: "string list \<Rightarrow> style" where
  "extractMusicStyle ws =
     (if some_includes ws [''trap'', ''hip'', ''hop'', ''beats'', ''808''] then Trap
      else if some_includes ws [''electronic'', ''synth'', ''digital'', ''edm''] then Electronic
      else if some_includes ws [''ambient'', ''atmospheric'', ''drone'', ''soundscape'']
        then Ambient
      else AmbientTrap)"

definition keysByMood :: "(mood \<times> string list) list" where
  "keysByMood =
    [(Dreamy, [''Em'', ''Am'', ''Dm'', ''F#m'']),
     (Dark, [''Dm'', ''Gm'', ''Cm'', ''F#m'']),
     (Uplifting, [''C'', ''G'', ''D'', ''A'']),
     (Melancholic, [''Am'', ''Em'', ''Bm'', ''F#m'']),
     (Ethereal, [''Em'', ''Bm'', ''F#m'', ''C#m'']),
     (Nostalgic, [''Am'', ''Dm'', ''G'', ''Em''])]"

text \<open>
  \<open>possibleKeys[Math.floor(Math.random() * possibleKeys.length)]\<close>; the result is
  \<open>undefined\<close> (\<open>None\<close>) when the index is outside the array.
\<close>

definition random_index :: "real \<Rightarrow> 'a list \<Rightarrow> 'a option" where
  "random_index r xs =
     (let i = \<lfloor>r * real (length xs)\<rfloor>
      in if 0 \<le> i then js_index xs (nat i) else None)"

definition selectProfessionalKey :: "mood \<Rightarrow> style \<Rightarrow> rng \<Rightarrow> string option \<times> rng" where
  "selectProfessionalKey m st g =
     (let possibleKeys = (case map_of keysByMood m of Some ks \<Rightarrow> ks
                          | None \<Rightarrow> [''Em'', ''Am'', ''Dm'', ''F#m'']);
          (r, g') = random g
      in (random_index r possibleKeys, g'))"

definition scaleByMood :: "(mood \<times> scale_name) list" where
  "scaleByMood =
    [(Dreamy, NaturalMinor), (Dark, Phrygian), (Uplifting, Major),
     (Melancholic, NaturalMinor), (Ethereal, Dorian), (Nostalgic, NaturalMinor)]"

definition selectScale :: "mood \<Rightarrow> style \<Rightarrow> int list" where
  "selectScale m st =
     SCALES (case map_of scaleByMood m of Some n \<Rightarrow> n | None \<Rightarrow> NaturalMinor)"

text \<open>
  \<open>calculateProfessionalTempo\<close>: the slow keywords are tested first; the multiplier
  is the double written \<open>0.7\<close>, \<open>1.3\<close> or \<open>1.0\<close>; the double product is rounded
  with \<open>Math.round\<close> and returned as it is.
\<close>

definition tempoMultiplier :: "string list \<Rightarrow> real" where
  "tempoMultiplier ws =
     (if some_includes ws [''slow'', ''languid'', ''dreamy'', ''ambient''] then to_double 0.7
      else if some_includes ws [''fast'', ''energetic'', ''driving'', ''intense'']
        then to_double 1.3
      else 1.0)"

definition calculateProfessionalTempo :: "string list \<Rightarrow> real \<Rightarrow> int" where
  "calculateProfessionalTempo ws baseTempo =
     js_round (to_double (baseTempo * tempoMultiplier ws))"

definition noteToNumber :: "(string \<times> int) list" where
  "noteToNumber =
    [(''C'', 0), (''C#'', 1), (''Db'', 1), (''D'', 2), (''D#'', 3), (''Eb'', 3), (''E'', 4),
     (''F'', 5), (''F#'', 6), (''Gb'', 6), (''G'', 7), (''G#'', 8), (''Ab'', 8), (''A'', 9),
     (''A#'', 10), (''Bb'', 10), (''B'', 11)]"

text \<open>\<open>key.replace(/m$/, '')\<close> removes one final \<open>m\<close>; a missing note counts as 0.\<close>

definition strip_final_m :: "string \<Rightarrow> string" where
  "strip_final_m k = (if k \<noteq> [] \<and> last k = CHR ''m'' then butlast k else k)"

definition parseKey :: "string \<Rightarrow> int" where
  "parseKey k = (case map_of noteToNumber (strip_final_m k) of Some n \<Rightarrow> n | None \<Rightarrow> 0)"

definition romanMap :: "(string \<times> nat) list" where
  "romanMap =
    [(''I'', 0), (''ii'', 1), (''iii'', 2), (''IV'', 3), (''V'', 4), (''vi'', 5), (vii_dim, 6),
     (''i'', 0), (''II'', 1), (''III'', 2), (''iv'', 3), (''v'', 4), (''VI'', 5), (''VII'', 6)]"

text \<open>
  \<open>addChordTensions\<close> draws three random numbers, and a fourth when the third exceeds
  0.8.
\<close>

definition addChordTensions :: "string \<Rightarrow> jsnum list \<Rightarrow> rng \<Rightarrow> string list \<times> rng" where
  "addChordTensions rm ivs g =
     (let (r1, g1) = random g;
          t1 = (if r1 > 0.5 then [''7''] else []);
          (r2, g2) = random g1;
          t2 = (if r2 > 0.7 then t1 @ [''add9''] else t1);
          (r3, g3) = random g2
      in if r3 > 0.8
         then (let (r4, g4) = random g3
               in (t2 @ [if r4 > 0.5 then ''sus2'' else ''sus4''], g4))
         else (t2, g3))"

definition noteNames :: "string list" where
  "noteNames = [''C'', ''C#'', ''D'', ''D#'', ''E'', ''F'', ''F#'', ''G'', ''G#'', ''A'', ''A#'', ''B'']"

text \<open>
  \<open>intervalsToChordName\<close>: a root outside the note table prints as \<open>undefined\<close>;
  the comparison \<open>thirdInterval === 3\<close> is false for \<open>NaN\<close>.
\<close>

definition intervalsToChordName :: "jsnum \<Rightarrow> jsnum list \<Rightarrow> string list \<Rightarrow> string" where
  "intervalsToChordName rt ivs ts =
     (let rootName = (case rt of
                        Some r \<Rightarrow> (if 0 \<le> r then (case js_index noteNames (nat r) of
                                                      Some n \<Rightarrow> n | None \<Rightarrow> ''undefined'')
                                   else ''undefined'')
                      | None \<Rightarrow> ''undefined'');
          thirdInterval = js_sub (js_at ivs 1) (js_at ivs 0);
          quality = (if thirdInterval = Some 3 then ''m'' else '''')
      in rootName @ quality @ concat ts)"

record Chord =
  c_name :: string
  c_intervals :: "jsnum list"
  c_tensions :: "string list"

text \<open>
  \<open>romanToChord\<close>: the third and the fifth are read at \<open>scale[degree + 2]\<close> and
  \<open>scale[degree + 4]\<close>, with no wrap-around at the end of the scale.
\<close>

definition romanToChord :: "string \<Rightarrow> int \<Rightarrow> int list \<Rightarrow> rng \<Rightarrow> Chord \<times> rng" where
  "romanToChord rm rt sc g =
     (let degree = (case map_of romanMap rm of Some d \<Rightarrow> d | None \<Rightarrow> 0);
          chordRoot = js_rem12 (js_add (Some rt) (js_index sc degree));
          ivs = [chordRoot,
                 js_rem12 (js_sub (js_add chordRoot (js_index sc (degree + 2)))
                                  (js_index sc degree)),
                 js_rem12 (js_sub (js_add chordRoot (js_index sc (degree + 4)))
                                  (js_index sc degree))];
          (ts, g') = addChordTensions rm ivs g
      in (\<lparr>c_name = intervalsToChordName chordRoot ivs ts, c_intervals = ivs,
           c_tensions = ts\<rparr>, g'))"

definition harmonicFunctions :: "(string \<times> harmonic_function) list" where
  "harmonicFunctions =
    [(''I'', Tonic), (''i'', Tonic), (''vi'', Tonic), (''VI'', Tonic),
     (''IV'', Subdominant), (''iv'', Subdominant), (''ii'', Predominant),
     (''II'', Predominant), (''V'', Dominant), (''v'', Dominant), (''VII'', Dominant),
     (vii_dim, Dominant)]"

definition getHarmonicFunction :: "string \<Rightarrow> harmonic_function" where
  "getHarmonicFunction rm = (case map_of harmonicFunctions rm of Some f \<Rightarrow> f | None \<Rightarrow> Tonic)"

text \<open>The \<open>map\<close> over the selected progression, threading the random source.\<close>

fun map_chords :: "string list \<Rightarrow> int \<Rightarrow> int list \<Rightarrow> rng \<Rightarrow> ChordProgression list \<times> rng" where
  "map_chords [] rt sc g = ([], g)"
| "map_chords (rm # rest) rt sc g =
     (let (chordInfo, g1) = romanToChord rm rt sc g;
          c = \<lparr>roman = rm, chord = c_name chordInfo, intervals = c_intervals chordInfo,
               tensions = c_tensions chordInfo, func = getHarmonicFunction rm,
               duration = 4\<rparr>;
          (cs, g2) = map_chords rest rt sc g1
      in (c # cs, g2))"

text \<open>
  \<open>generateProfessionalChordProgression\<close>. The table has no entry for three of the
  moods: there \<open>progressionData\<close> is \<open>undefined\<close> and reading its \<open>length\<close> throws a
  \<open>TypeError\<close>. The same error arises from an \<open>undefined\<close> key or template.
\<close>

definition generateProfessionalChordProgression ::
    "string option \<Rightarrow> int list \<Rightarrow> mood \<Rightarrow> style \<Rightarrow> rng \<Rightarrow> error + (ChordProgression list \<times> rng)" where
  "generateProfessionalChordProgression k sc m st g =
     (case map_of CHORD_PROGRESSIONS m of
        None \<Rightarrow> Inl TypeError
      | Some progressionData \<Rightarrow>
          (let (r, g1) = random g;
               selectedProgression = random_index r progressionData
           in case k of
                None \<Rightarrow> Inl TypeError
              | Some k' \<Rightarrow>
                  (let rootNote = parseKey k'
                   in case selectedProgression of
                        None \<Rightarrow> Inl TypeError
                      | Some progression \<Rightarrow> Inr (map_chords progression rootNote sc g1))))"

definition createProfessionalStructure :: "style \<Rightarrow> int \<Rightarrow> ProfessionalSongStructure" where
  "createProfessionalStructure st tp =
     (let tempoMult = (if tp < 80 then 1.5 else if tp > 120 then 0.8 else (1.0 :: real))
      in \<lparr>sections =
            \<lparr>intro = \<lparr>bars = js_round (8 * tempoMult)\<rparr>,
             verse = \<lparr>bars = js_round (16 * tempoMult)\<rparr>,
             chorus = Some \<lparr>bars = js_round (8 * tempoMult)\<rparr>,
             bridge = Some \<lparr>bars = js_round (8 * tempoMult)\<rparr>,
             outro = \<lparr>bars = js_round (8 * tempoMult)\<rparr>\<rparr>,
          totalBars = js_round ((8 + 16 + 8 + 8 + 8) * tempoMult)\<rparr>)"

definition complexityKeywords :: "(complexity \<times> string list) list" where
  "complexityKeywords =
    [(Simple, [''simple'', ''basic'', ''minimal'', ''clean'']),
     (Medium, [''smooth'', ''flowing'', ''melodic'', ''harmonic'']),
     (Complex, [''complex'', ''sophisticated'', ''jazz'', ''advanced'', ''intricate''])]"

definition analyzeHarmonicComplexity :: "string list \<Rightarrow> complexity" where
  "analyzeHarmonicComplexity ws =
     (case first_entry ws complexityKeywords of Some c \<Rightarrow> c | None \<Rightarrow> Medium)"

text \<open>
  \<open>analyzePromptAdvanced(prompt, settings)\<close>. Of the settings only \<open>pace\<close> is read
  (\<open>settings.pace || 85\<close>); the mood comes from the words of the prompt.
\<close>

definition analyzePromptAdvanced ::
    "string \<Rightarrow> GenerationSettings \<Rightarrow> rng \<Rightarrow> error + MusicTheoryAnalysis" where
  "analyzePromptAdvanced prompt settings g =
     (let ws = prompt_words prompt;
          m = extractAdvancedMood ws;
          st = extractMusicStyle ws;
          tp = calculateProfessionalTempo ws (if pace settings = 0 then 85 else pace settings);
          (k, g1) = selectProfessionalKey m st g;
          sc = selectScale m st
      in case generateProfessionalChordProgression k sc m st g1 of
           Inl e \<Rightarrow> Inl e
         | Inr (cp, g2) \<Rightarrow>
             Inr \<lparr>key = k, scale = sc, chordProgression = cp,
                  songStructure = createProfessionalStructure st tp, tempo = tp,
                  a_mood = m, a_style = st,
                  harmonicComplexity = analyzeHarmonicComplexity ws\<rparr>)"

section \<open>The generator (music-generator.ts)\<close>

record TimeRange =
  range_start :: real
  range_end :: real

record SongStructure =
  s_intro :: TimeRange
  s_verse :: TimeRange
  s_hook :: TimeRange
  s_bridge :: TimeRange
  s_outro :: TimeRange

definition createCustomPrompt :: "GenerationSettings \<Rightarrow> string" where
  "createCustomPrompt settings =
     (case customPrompt settings of
        Some p \<Rightarrow> (if p \<noteq> [] \<and> trim p \<noteq> [] then trim p
                   else ''Create an ambient music track'')
      | None \<Rightarrow> ''Create an ambient music track'')"

definition moodMultipliers :: "(mood \<times> real) list" where
  "moodMultipliers =
    [(Dreamy, 1.2), (Dark, 1.1), (Uplifting, 0.9), (Melancholic, 1.3), (Ethereal, 1.4),
     (Nostalgic, 1.1)]"

definition moodMultiplier :: "mood \<Rightarrow> real" where
  "moodMultiplier m =
     (case map_of moodMultipliers m of
        Some x \<Rightarrow> (if x = 0 then 1.0 else x)
      | None \<Rightarrow> 1.0)"

text \<open>
  \<open>calculateDynamicDuration\<close> reads the instance counter \<open>generationCount\<close>, here
  the first argument.
\<close>

definition calculateDynamicDuration :: "nat \<Rightarrow> GenerationSettings \<Rightarrow> int" where
  "calculateDynamicDuration generationCount settings =
     (let base0 = 120 + real generationCount * 5;
          base1 = base0 * moodMultiplier (mood settings);
          base2 = (if pace settings < 80 then base1 * 1.2
                   else if pace settings > 120 then base1 * 0.8 else base1)
      in min 180 (max 90 \<lfloor>base2\<rfloor>))"

definition calculateProfessionalDuration ::
    "MusicTheoryAnalysis \<Rightarrow> GenerationSettings \<Rightarrow> int" where
  "calculateProfessionalDuration musicAnalysis settings =
     (let base0 = (if tempo musicAnalysis < 80 then 120 * 1.3
                   else if tempo musicAnalysis > 120 then 120 * 0.8 else 120);
          base1 = base0 * moodMultiplier (a_mood musicAnalysis);
          structureMultiplier = real_of_int (totalBars (songStructure musicAnalysis)) / 48;
          base2 = base1 * structureMultiplier
      in min 180 (max 90 \<lfloor>base2\<rfloor>))"

text \<open>
  \<open>createProfessionalSongStructure\<close> lays the first four sections out by their bar
  counts and ends the outro at \<open>duration\<close>. With tempo 0 the bar duration is
  infinite; the result is then \<open>None\<close>.
\<close>

definition createProfessionalSongStructure ::
    "int \<Rightarrow> MusicTheoryAnalysis \<Rightarrow> SongStructure option" where
  "createProfessionalSongStructure dur musicAnalysis =
     (if tempo musicAnalysis = 0 then None
      else
        (let secs = sections (songStructure musicAnalysis);
             beatsPerSecond = real_of_int (tempo musicAnalysis) / 60;
             barDuration = 4 / beatsPerSecond;
             i = \<lparr>range_start = 0,
                  range_end = 0 + real_of_int (bars (intro secs)) * barDuration\<rparr>;
             v = \<lparr>range_start = range_end i,
                  range_end = range_end i + real_of_int (bars (verse secs)) * barDuration\<rparr>;
             hookBars = (case chorus secs of
                           Some c \<Rightarrow> (if bars c = 0 then bars (verse secs) else bars c)
                         | None \<Rightarrow> bars (verse secs));
             h = \<lparr>range_start = range_end v,
                  range_end = range_end v + real_of_int hookBars * barDuration\<rparr>;
             bridgeBars = (case bridge secs of
                             Some b \<Rightarrow> (if bars b = 0 then real_of_int (bars (verse secs)) * 0.5
                                        else real_of_int (bars b))
                           | None \<Rightarrow> real_of_int (bars (verse secs)) * 0.5);
             b = \<lparr>range_start = range_end h,
                  range_end = range_end h + bridgeBars * barDuration\<rparr>;
             out = \<lparr>range_start = range_end b, range_end = real_of_int dur\<rparr>
         in Some \<lparr>s_intro = i, s_verse = v, s_hook = h, s_bridge = b, s_outro = out\<rparr>))"

record Ratios =
  r_intro :: real
  r_verse :: real
  r_hook :: real
  r_bridge :: real
  r_outro :: real

definition structures :: "Ratios list" where
  "structures =
    [\<lparr>r_intro = 0.1, r_verse = 0.25, r_hook = 0.4, r_bridge = 0.15, r_outro = 0.1\<rparr>,
     \<lparr>r_intro = 0.2, r_verse = 0.3, r_hook = 0.3, r_bridge = 0.1, r_outro = 0.1\<rparr>,
     \<lparr>r_intro = 0.1, r_verse = 0.2, r_hook = 0.5, r_bridge = 0.1, r_outro = 0.1\<rparr>,
     \<lparr>r_intro = 0.15, r_verse = 0.35, r_hook = 0.25, r_bridge = 0.15, r_outro = 0.1\<rparr>]"

definition generateEvolvedStructure :: "nat \<Rightarrow> GenerationSettings \<Rightarrow> SongStructure" where
  "generateEvolvedStructure generationCount settings =
     (let dur = real_of_int (calculateDynamicDuration generationCount settings);
          ratios = structures ! (generationCount mod length structures);
          i = \<lparr>range_start = 0, range_end = 0 + dur * r_intro ratios\<rparr>;
          v = \<lparr>range_start = range_end i, range_end = range_end i + dur * r_verse ratios\<rparr>;
          h = \<lparr>range_start = range_end v, range_end = range_end v + dur * r_hook ratios\<rparr>;
          b = \<lparr>range_start = range_end h, range_end = range_end h + dur * r_bridge ratios\<rparr>;
          out = \<lparr>range_start = range_end b, range_end = dur\<rparr>
      in \<lparr>s_intro = i, s_verse = v, s_hook = h, s_bridge = b, s_outro = out\<rparr>)"

text \<open>
  The metadata that \<open>generateEnhancedFallback\<close> returns (the title and the rendered
  audio are left out). An error of the analysis is not caught.
\<close>

record GenerationMetadata =
  m_prompt :: string
  m_duration :: int
  m_structure :: "SongStructure option"
  m_analysis :: MusicTheoryAnalysis

definition generateEnhancedFallback ::
    "GenerationSettings \<Rightarrow> rng \<Rightarrow> error + GenerationMetadata" where
  "generateEnhancedFallback settings g =
     (let prompt = createCustomPrompt settings
      in case analyzePromptAdvanced prompt settings g of
           Inl e \<Rightarrow> Inl e
         | Inr musicAnalysis \<Rightarrow>
             (let dur = calculateProfessionalDuration musicAnalysis settings
              in Inr \<lparr>m_prompt = ''Professional: '' @ prompt, m_duration = dur,
                      m_structure = createProfessionalSongStructure dur musicAnalysis,
                      m_analysis = musicAnalysis\<rparr>))"

text \<open>\<open>getDefaultSettings\<close>\<close>

definition getDefaultSettings :: GenerationSettings where
  "getDefaultSettings =
     \<lparr>bass = 50, pace = 85, reverb = 70, distortion = 20, fadeIn = 3, fadeOut = 3,
      instruments = \<lparr>i_drums = True, i_bass = True, i_synths = True, i_pads = True,
                     i_arps = False\<rparr>,
      mood = Dreamy, customPrompt = None\<rparr>"

text \<open>A random source whose every draw is 0, for evaluating the engine on concrete inputs.\<close>

definition zero_rng :: rng where
  "zero_rng n = 0"

text \<open>The invariant of a song structure over \<open>[0, dur)\<close>, in the words of the specification.\<close>

definition positive_range :: "TimeRange \<Rightarrow> bool" where
  "positive_range r \<longleftrightarrow> range_start r < range_end r"

definition partitions :: "SongStructure \<Rightarrow> real \<Rightarrow> bool" where
  "partitions s dur \<longleftrightarrow>
     range_start (s_intro s) = 0 \<and>
     range_end (s_intro s) = range_start (s_verse s) \<and>
     range_end (s_verse s) = range_start (s_hook s) \<and>
     range_end (s_hook s) = range_start (s_bridge s) \<and>
     range_end (s_bridge s) = range_start (s_outro s) \<and>
     range_end (s_outro s) = dur \<and>
     positive_range (s_intro s) \<and> positive_range (s_verse s) \<and>
     positive_range (s_hook s) \<and> positive_range (s_bridge s) \<and>
     positive_range (s_outro s)"

section \<open>The effects chain (professional-audio-renderer.ts)\<close>

text \<open>
  Samples are reals: the rounding of a \<open>Float32Array\<close> store is not modelled. A delay
  line is a buffer with a write position. A position outside the buffer, which no
  state made by \<open>initializeEffectsChain\<close> ever reaches, would read \<open>undefined\<close>;
  the result is then \<open>None\<close>. The state objects of distortion, chorus and filter
  are never read and are left out.
\<close>

record DelayLine =
  buffer :: "real list"
  index :: nat

record EffectsState =
  es_reverb :: DelayLine
  es_delay :: DelayLine

definition SAMPLE_RATE :: nat where
  "SAMPLE_RATE = 44100"

definition initializeEffectsChain :: EffectsState where
  "initializeEffectsChain =
     \<lparr>es_reverb = \<lparr>buffer = replicate 22050 0, index = 0\<rparr>,
      es_delay = \<lparr>buffer = replicate 13230 0, index = 0\<rparr>\<rparr>"

text \<open>\<open>(settings.distortion || 20) / 100\<close>: the number 0 is falsy and takes the default.\<close>

definition applyDistortion :: "real \<Rightarrow> GenerationSettings \<Rightarrow> real" where
  "applyDistortion sample settings =
     (let distAmount = (if distortion settings = 0 then 20 else distortion settings) / 100
      in if distAmount = 0 then sample
         else (let driven = sample * (1 + distAmount * 3)
               in tanh driven * (1 - distAmount * 0.1)))"

definition applyFilter :: "real \<Rightarrow> real \<Rightarrow> real" where
  "applyFilter sample t = sample * (0.8 + 0.2 * sin (t * 0.3))"

definition applyChorus :: "real \<Rightarrow> real \<Rightarrow> real" where
  "applyChorus sample t = sample * (1 + sin (2 * pi * 0.5 * t) * 0.02)"

definition applyDelay :: "real \<Rightarrow> DelayLine \<Rightarrow> (real \<times> DelayLine) option" where
  "applyDelay sample st =
     (if index st < length (buffer st)
      then (let delayedSample = buffer st ! index st
            in Some (sample + delayedSample * 0.2,
                     \<lparr>buffer = (buffer st)[index st := sample + delayedSample * 0.3],
                      index = (index st + 1) mod length (buffer st)\<rparr>))
      else None)"

text \<open>\<open>(settings.reverb || 70) / 100\<close>\<close>

definition applyReverb ::
    "real \<Rightarrow> DelayLine \<Rightarrow> GenerationSettings \<Rightarrow> (real \<times> DelayLine) option" where
  "applyReverb sample st settings =
     (let reverbLevel = (if reverb settings = 0 then 70 else reverb settings) / 100
      in if reverbLevel = 0 then Some (sample, st)
         else if index st < length (buffer st)
         then (let delayedSample = buffer st ! index st
               in Some (sample + delayedSample * reverbLevel,
                        \<lparr>buffer = (buffer st)[index st :=
                                     sample + delayedSample * reverbLevel * 0.4],
                         index = (index st + 1) mod length (buffer st)\<rparr>))
         else None)"

text \<open>The reverb stage alone, run over a sequence of samples.\<close>

fun applyReverb_seq ::
    "real list \<Rightarrow> DelayLine \<Rightarrow> GenerationSettings \<Rightarrow> (real list \<times> DelayLine) option" where
  "applyReverb_seq [] st settings = Some ([], st)"
| "applyReverb_seq (x # xs) st settings =
     (case applyReverb x st settings of
        None \<Rightarrow> None
      | Some (y, st1) \<Rightarrow>
          (case applyReverb_seq xs st1 settings of
             None \<Rightarrow> None
           | Some (ys, st2) \<Rightarrow> Some (y # ys, st2)))"

text \<open>
  \<open>applyEffectsChain\<close>: for the sample at position \<open>i\<close>, distortion, filter, chorus,
  delay and reverb, in this order.
\<close>

fun effects_loop ::
    "nat \<Rightarrow> real list \<Rightarrow> EffectsState \<Rightarrow> GenerationSettings
       \<Rightarrow> (real list \<times> EffectsState) option" where
  "effects_loop i [] st settings = Some ([], st)"
| "effects_loop i (x # xs) st settings =
     (let t = real i / real SAMPLE_RATE;
          s1 = applyDistortion x settings;
          s2 = applyFilter s1 t;
          s3 = applyChorus s2 t
      in case applyDelay s3 (es_delay st) of
           None \<Rightarrow> None
         | Some (s4, dl) \<Rightarrow>
             (case applyReverb s4 (es_reverb st) settings of
                None \<Rightarrow> None
              | Some (s5, rv) \<Rightarrow>
                  (case effects_loop (Suc i) xs \<lparr>es_reverb = rv, es_delay = dl\<rparr> settings of
                     None \<Rightarrow> None
                   | Some (ys, st') \<Rightarrow> Some (s5 # ys, st'))))"

definition applyEffectsChain ::
    "real list \<Rightarrow> EffectsState \<Rightarrow> GenerationSettings \<Rightarrow> (real list \<times> EffectsState) option" where
  "applyEffectsChain buf effectsState settings = effects_loop 0 buf effectsState settings"

section \<open>The WAV encoders\<close>

text \<open>
  A Node \<open>Buffer\<close> is a list of bytes; \<open>Buffer.alloc\<close> fills it with zeros. The integer
  writers throw a \<open>RangeError\<close> for a value outside the range of the field or a
  position outside the buffer, and store the value truncated towards zero, byte by byte,
  least significant first. \<open>buffer.write\<close> stores the characters that fit.
\<close>

type_synonym byte = "8 word"

definition alloc :: "nat \<Rightarrow> byte list" where
  "alloc n = replicate n 0"

definition write_at :: "byte list \<Rightarrow> nat \<Rightarrow> byte list \<Rightarrow> byte list" where
  "write_at buf off bs =
     take off buf @ take (length buf - off) bs @ drop (off + length bs) buf"

definition write_string :: "byte list \<Rightarrow> string \<Rightarrow> nat \<Rightarrow> byte list" where
  "write_string buf s off = write_at buf off (map of_char s)"

definition writeUInt32LE :: "byte list \<Rightarrow> int \<Rightarrow> nat \<Rightarrow> error + byte list" where
  "writeUInt32LE buf v off =
     (if v < 0 \<or> 4294967295 < v \<or> length buf < off + 4 then Inl RangeError
      else Inr (write_at buf off
             [word_of_int v, word_of_int (v div 256), word_of_int (v div 65536),
              word_of_int (v div 16777216)]))"

definition writeUInt16LE :: "byte list \<Rightarrow> int \<Rightarrow> nat \<Rightarrow> error + byte list" where
  "writeUInt16LE buf v off =
     (if v < 0 \<or> 65535 < v \<or> length buf < off + 2 then Inl RangeError
      else Inr (write_at buf off [word_of_int v, word_of_int (v div 256)]))"

definition writeInt16LE :: "byte list \<Rightarrow> real \<Rightarrow> nat \<Rightarrow> error + byte list" where
  "writeInt16LE buf v off =
     (if v < - 32768 \<or> 32767 < v \<or> length buf < off + 2 then Inl RangeError
      else Inr (write_at buf off
             [word_of_int (js_trunc v), word_of_int (js_trunc v div 256)]))"

definition bind_err :: "error + 'a \<Rightarrow> ('a \<Rightarrow> error + 'b) \<Rightarrow> error + 'b" where
  "bind_err r f = (case r of Inl e \<Rightarrow> Inl e | Inr x \<Rightarrow> f x)"

text \<open>The header, written field by field at the positions of the source.\<close>

definition write_header :: "byte list \<Rightarrow> nat \<Rightarrow> int \<Rightarrow> error + byte list" where
  "write_header buffer0 len sampleRate =
     (let b1 = write_string buffer0 ''RIFF'' 0
      in bind_err (writeUInt32LE b1 (36 + int len * 2) 4) (\<lambda>b2.
         let b3 = write_string b2 ''WAVE'' 8;
             b4 = write_string b3 ''fmt '' 12
         in bind_err (writeUInt32LE b4 16 16) (\<lambda>b5.
            bind_err (writeUInt16LE b5 1 20) (\<lambda>b6.
            bind_err (writeUInt16LE b6 1 22) (\<lambda>b7.
            bind_err (writeUInt32LE b7 sampleRate 24) (\<lambda>b8.
            bind_err (writeUInt32LE b8 (sampleRate * 2) 28) (\<lambda>b9.
            bind_err (writeUInt16LE b9 2 32) (\<lambda>b10.
            bind_err (writeUInt16LE b10 16 34) (\<lambda>b11.
            let b12 = write_string b11 ''data'' 36
            in writeUInt32LE b12 (int len * 2) 40)))))))))"

text \<open>
  \<open>ProfessionalAudioRenderer.createWAVBuffer\<close>: each sample is clamped, scaled and
  rounded with \<open>Math.round\<close> before it is written.
\<close>

fun pro_samples :: "byte list \<Rightarrow> nat \<Rightarrow> real list \<Rightarrow> error + byte list" where
  "pro_samples buf i [] = Inr buf"
| "pro_samples buf i (x # xs) =
     (let sample = max (- 1) (min 1 x);
          intSample = js_round (sample * 32767)
      in bind_err (writeInt16LE buf (real_of_int intSample) (44 + i * 2))
           (\<lambda>b. pro_samples b (Suc i) xs))"

definition createWAVBuffer :: "real list \<Rightarrow> int \<Rightarrow> error + byte list" where
  "createWAVBuffer audioData sampleRate =
     (let len = length audioData
      in bind_err (write_header (alloc (44 + len * 2)) len sampleRate)
           (\<lambda>b. pro_samples b 0 audioData))"

text \<open>
  \<open>MusicGenerator.createWAVBuffer\<close>: the same header; the scaled sample
  \<open>sample * 0x7FFF\<close> is handed to \<open>writeInt16LE\<close> unrounded.
\<close>

fun gen_samples :: "byte list \<Rightarrow> nat \<Rightarrow> real list \<Rightarrow> error + byte list" where
  "gen_samples buf i [] = Inr buf"
| "gen_samples buf i (x # xs) =
     (let sample = max (- 1) (min 1 x)
      in bind_err (writeInt16LE buf (sample * 32767) (44 + i * 2))
           (\<lambda>b. gen_samples b (Suc i) xs))"

definition createWAVBuffer_generator :: "real list \<Rightarrow> int \<Rightarrow> error + byte list" where
  "createWAVBuffer_generator audioData sampleRate =
     (let len = length audioData
      in bind_err (write_header (alloc (44 + len * 2)) len sampleRate)
           (\<lambda>b. gen_samples b 0 audioData))"

text \<open>
  The canonical layout in the words of the specification: the 44-byte header of a mono
  16-bit PCM file, and a sample as a little-endian signed 16-bit integer.
\<close>

definition le16 :: "int \<Rightarrow> byte list" where
  "le16 v = [word_of_int v, word_of_int (v div 256)]"

definition le32 :: "int \<Rightarrow> byte list" where
  "le32 v = [word_of_int v, word_of_int (v div 256), word_of_int (v div 65536),
             word_of_int (v div 16777216)]"

definition wav_header :: "nat \<Rightarrow> int \<Rightarrow> byte list" where
  "wav_header n sampleRate =
     map of_char ''RIFF'' @ le32 (36 + 2 * int n) @ map of_char ''WAVE'' @
     map of_char ''fmt '' @ le32 16 @ le16 1 @ le16 1 @ le32 sampleRate @
     le32 (sampleRate * 2) @ le16 2 @ le16 16 @ map of_char ''data'' @ le32 (2 * int n)"

definition pcm16 :: "real \<Rightarrow> byte list" where
  "pcm16 x = le16 (js_round (max (- 1) (min 1 x) * 32767))"

text \<open>What \<open>writeInt16LE\<close> stores for the unrounded scaled sample.\<close>

definition trunc16 :: "real \<Rightarrow> byte list" where
  "trunc16 x = le16 (js_trunc (max (- 1) (min 1 x) * 32767))"

text \<open>
  A buffer that is written from the left: the bytes written so far, followed by the
  zeros of the allocation.
\<close>

definition frontier :: "byte list \<Rightarrow> nat \<Rightarrow> byte list" where
  "frontier pre k = pre @ replicate k 0"

section \<open>Helper facts\<close>

text \<open>
  Evaluating \<open>to_double\<close>: once the binade of a positive number is known, the double
  is the number scaled to 53 bits, rounded and scaled back.
\<close>

lemma to_double_exponent:
  assumes "0 < x" and "\<lfloor>log 2 x\<rfloor> = k" and "- 1022 \<le> k"
  shows "to_double x =
           real_of_int (round_half_even (x / 2 powr real_of_int (k - 52))) *
             2 powr real_of_int (k - 52)"
proof -
  have "\<bar>x\<bar> = x" using assms(1) by simp
  moreover have "max (k - 52) (- 1074) = k - 52" using assms(3) by simp
  ultimately show ?thesis
    using assms(1,2) by (simp only: to_double_def Let_def) simp
qed

lemma powr_neg_nat: "2 powr (- real m) = 1 / (2 :: real) ^ m"
proof -
  have "2 powr (- real m) = inverse ((2 :: real) powr real m)" by (rule powr_minus)
  also have "\<dots> = inverse ((2 :: real) ^ m)" by (subst powr_realpow) simp_all
  finally show ?thesis by (simp add: inverse_eq_divide)
qed

lemma to_double_ge1:
  assumes "2 ^ n \<le> x" and "x < 2 ^ Suc n" and "n \<le> 52"
  shows "to_double x = real_of_int (round_half_even (x * 2 ^ (52 - n))) / 2 ^ (52 - n)"
proof -
  have "(0 :: real) < 2 ^ n" by simp
  then have pos: "0 < x" using assms(1) by linarith
  have fl: "\<lfloor>log 2 x\<rfloor> = int n"
    using assms pos by (subst floor_log_eq_powr_iff) (simp_all add: powr_realpow powr_add)
  have "real_of_int (int n - 52) = - real (52 - n)" using assms(3) by simp
  then have p: "2 powr real_of_int (int n - 52) = 1 / (2 :: real) ^ (52 - n)"
    by (simp only: powr_neg_nat)
  show ?thesis
    by (subst to_double_exponent [OF pos fl]) (simp_all only: p, simp_all)
qed

lemma to_double_lt1:
  assumes "1 \<le> x * 2 ^ n" and "x * 2 ^ n < 2" and "n \<le> 1022"
  shows "to_double x = real_of_int (round_half_even (x * 2 ^ (52 + n))) / 2 ^ (52 + n)"
proof -
  have "0 < x * 2 ^ n" using assms(1) by linarith
  then have pos: "0 < x" by (simp add: zero_less_mult_iff)
  have lo: "2 powr real_of_int (- int n) = 1 / (2 :: real) ^ n"
    using powr_neg_nat [of n] by simp
  have "2 powr (real_of_int (- int n) + 1) = 2 powr real_of_int (- int n) * (2 :: real) powr 1"
    by (rule powr_add)
  then have hi: "2 powr (real_of_int (- int n) + 1) = 2 / (2 :: real) ^ n"
    by (simp only: lo) simp
  have "2 powr real_of_int (- int n) \<le> x \<and> x < 2 powr (real_of_int (- int n) + 1)"
    using assms(1,2) by (simp only: lo hi) (simp add: field_simps)
  then have fl: "\<lfloor>log 2 x\<rfloor> = - int n"
    using pos by (subst floor_log_eq_powr_iff) simp_all
  have "real_of_int (- int n - 52) = - real (52 + n)" by simp
  then have p: "2 powr real_of_int (- int n - 52) = 1 / (2 :: real) ^ (52 + n)"
    by (simp only: powr_neg_nat)
  show ?thesis
    using assms(3) by (subst to_double_exponent [OF pos fl]) (simp_all only: p, simp_all)
qed

text \<open>The doubles written \<open>0.7\<close> and \<open>1.3\<close>; small integers are doubles.\<close>

lemma double_0_7: "to_double 0.7 = 6305039478318694 / 2 ^ 53"
  by (subst to_double_lt1 [of _ 1]) (simp_all add: round_half_even_def)

lemma double_1_3: "to_double 1.3 = 5854679515581645 / 2 ^ 52"
  by (subst to_double_ge1 [of 0]) (simp_all add: round_half_even_def)

lemma double_60: "to_double 60 = 60"
  by (subst to_double_ge1 [of 5]) (simp_all add: round_half_even_def)

lemma double_85: "to_double 85 = 85"
  by (subst to_double_ge1 [of 6]) (simp_all add: round_half_even_def)

lemma js_round_mono: "x \<le> y \<Longrightarrow> js_round x \<le> js_round y"
  by (simp add: js_round_def floor_mono)

lemma applyReverb_zero_default:
  "applyReverb x st (settings\<lparr>reverb := 0\<rparr>) = applyReverb x st (settings\<lparr>reverb := 70\<rparr>)"
  by (simp add: applyReverb_def)

lemma applyReverb_seq_zero_default:
  "applyReverb_seq xs st (settings\<lparr>reverb := 0\<rparr>) =
   applyReverb_seq xs st (settings\<lparr>reverb := 70\<rparr>)"
  by (induction xs arbitrary: st)
     (simp_all add: applyReverb_zero_default split: option.split prod.split)

lemma applyDistortion_reverb_irrelevant:
  "applyDistortion x (settings\<lparr>reverb := r\<rparr>) = applyDistortion x settings"
  by (simp add: applyDistortion_def)

lemma effects_loop_zero_default:
  "effects_loop i xs st (settings\<lparr>reverb := 0\<rparr>) =
   effects_loop i xs st (settings\<lparr>reverb := 70\<rparr>)"
  by (induction xs arbitrary: i st)
     (simp_all add: applyReverb_zero_default applyDistortion_reverb_irrelevant Let_def
        split: option.split prod.split)

text \<open>
  On a delay line whose position lies inside its buffer the reverb is defined, keeps the
  length of the buffer and leaves the position inside it; so is a run over any sequence.
\<close>

lemma applyReverb_defined:
  assumes "index st < length (buffer st)"
  shows "\<exists>y st1. applyReverb x st settings = Some (y, st1) \<and>
     index st1 < length (buffer st1) \<and> length (buffer st1) = length (buffer st)"
proof -
  from assms have "0 < length (buffer st)" by (cases "buffer st") simp_all
  then have "Suc (index st) mod length (buffer st) < length (buffer st)" by simp
  with assms show ?thesis by (auto simp add: applyReverb_def Let_def)
qed

lemma applyReverb_seq_defined:
  "index st < length (buffer st) \<Longrightarrow>
   \<exists>ys st'. applyReverb_seq xs st settings = Some (ys, st') \<and> length ys = length xs \<and>
     index st' < length (buffer st') \<and> length (buffer st') = length (buffer st)"
proof (induction xs arbitrary: st)
  case Nil
  then show ?case by simp
next
  case (Cons x xs)
  obtain y st1 where step: "applyReverb x st settings = Some (y, st1)"
    and wf: "index st1 < length (buffer st1)" and len: "length (buffer st1) = length (buffer st)"
    using applyReverb_defined [OF Cons.prems] by blast
  from Cons.IH [OF wf] obtain ys st2 where
    "applyReverb_seq xs st1 settings = Some (ys, st2)" "length ys = length xs"
    "index st2 < length (buffer st2)" "length (buffer st2) = length (buffer st1)"
    by blast
  with step len show ?case by simp
qed

lemma applyReverb_wet:
  "index st < length (buffer st) \<Longrightarrow>
   applyReverb x st (settings\<lparr>reverb := 0\<rparr>) =
     Some (x + buffer st ! index st * (7 / 10),
           \<lparr>buffer = (buffer st)[index st := x + buffer st ! index st * (7 / 10) * (4 / 10)],
            index = (index st + 1) mod length (buffer st)\<rparr>)"
  by (simp add: applyReverb_def Let_def)

text \<open>With the slider at 0 the delayed sample is still mixed in at level 0.7.\<close>

lemma reverb_wet_at_zero:
  "applyReverb x \<lparr>buffer = [1], index = 0\<rparr> (getDefaultSettings\<lparr>reverb := 0\<rparr>) =
     Some (x + 7 / 10, \<lparr>buffer = [x + 7 / 25], index = 0\<rparr>)"
  by (simp add: applyReverb_def getDefaultSettings_def)

text \<open>For a slider other than 0 the distortion is the saturation curve of the source.\<close>

lemma applyDistortion_formula:
  "distortion settings \<noteq> 0 \<Longrightarrow>
   applyDistortion x settings =
     tanh (x * (1 + distortion settings / 100 * 3)) * (1 - distortion settings / 100 * 0.1)"
  by (simp add: applyDistortion_def Let_def)

lemma applyDistortion_zero:
  "applyDistortion x (settings\<lparr>distortion := 0\<rparr>) = tanh (x * (8 / 5)) * (49 / 50)"
  by (simp add: applyDistortion_def)

section \<open>Evaluating the engine on concrete prompts\<close>

lemmas prompt_defs =
  prompt_words_def toLowerCase_def toLowerCase_char_def is_sep_def is_space_def

lemmas js_defs = js_index_def js_add_def js_sub_def js_rem12_def js_rem_def

lemma random_zero_rng: "random zero_rng = (0, zero_rng)"
  by (simp add: random_def zero_rng_def fun_eq_iff)

text \<open>The intervals of a chord do not depend on the random draws.\<close>

lemma romanToChord_intervals:
  "c_intervals (fst (romanToChord rm rt sc g)) =
     (let degree = (case map_of romanMap rm of Some d \<Rightarrow> d | None \<Rightarrow> 0);
          chordRoot = js_rem12 (js_add (Some rt) (js_index sc degree))
      in [chordRoot,
          js_rem12 (js_sub (js_add chordRoot (js_index sc (degree + 2))) (js_index sc degree)),
          js_rem12 (js_sub (js_add chordRoot (js_index sc (degree + 4))) (js_index sc degree))])"
  by (simp add: romanToChord_def Let_def split_beta)

lemma V_in_E_minor:
  "c_intervals (fst (romanToChord ''V'' 4 (selectScale Dreamy st) g)) = [Some 11, Some 2, None]"
  by (simp add: romanToChord_intervals romanMap_def vii_dim_def selectScale_def scaleByMood_def
      SCALES_def js_defs)

lemma chords_vi_IV_I_V:
  "map intervals (fst (map_chords [''vi'', ''IV'', ''I'', ''V''] 4 [0, 2, 3, 5, 7, 8, 10] g)) =
     [ [Some 0, None, None], [Some 9, Some 0, None], [Some 4, Some 7, Some 11],
      [Some 11, Some 2, None] ]"
  by (simp add: split_beta Let_def romanToChord_intervals romanMap_def vii_dim_def js_defs)

lemma words_piano: "prompt_words ''piano'' = [''piano'']"
  by (simp add: prompt_defs)

lemma words_dark: "prompt_words ''dark brooding'' = [''dark'', ''brooding'']"
  by (simp add: prompt_defs)

lemma words_sad: "prompt_words ''sad piano'' = [''sad'', ''piano'']"
  by (simp add: prompt_defs)

text \<open>The prompt used when no custom prompt is given carries the keyword \<open>ambient\<close>.\<close>

lemma words_default:
  "prompt_words ''Create an ambient music track'' =
     [''create'', ''an'', ''ambient'', ''music'', ''track'']"
  by code_simp

lemma mood_piano: "extractAdvancedMood [''piano''] = Dreamy"
  by (simp add: extractAdvancedMood_def moodKeywords_def some_includes_def)

lemma mood_dark: "extractAdvancedMood [''dark'', ''brooding''] = Dark"
  by (simp add: extractAdvancedMood_def moodKeywords_def some_includes_def)

lemma mood_sad: "extractAdvancedMood [''sad'', ''piano''] = Melancholic"
  by (simp add: extractAdvancedMood_def moodKeywords_def some_includes_def)

lemma style_piano: "extractMusicStyle [''piano''] = AmbientTrap"
  by (simp add: extractMusicStyle_def some_includes_def)

lemma style_dark: "extractMusicStyle [''dark'', ''brooding''] = AmbientTrap"
  by (simp add: extractMusicStyle_def some_includes_def)

lemma tempo_piano_60: "calculateProfessionalTempo [''piano''] 60 = 60"
  by (simp add: calculateProfessionalTempo_def tempoMultiplier_def some_includes_def
      double_60 js_round_def)

lemma tempo_dark_85: "calculateProfessionalTempo [''dark'', ''brooding''] 85 = 85"
  by (simp add: calculateProfessionalTempo_def tempoMultiplier_def some_includes_def
      double_85 js_round_def)

lemma key_dreamy_zero: "selectProfessionalKey Dreamy st zero_rng = (Some ''Em'', zero_rng)"
  by (simp add: selectProfessionalKey_def keysByMood_def random_zero_rng random_index_def
      js_index_def)

lemma key_dark_zero: "selectProfessionalKey Dark st zero_rng = (Some ''Dm'', zero_rng)"
  by (simp add: selectProfessionalKey_def keysByMood_def random_zero_rng random_index_def
      js_index_def)

lemma progression_dreamy_zero:
  "generateProfessionalChordProgression (Some ''Em'') sc Dreamy st zero_rng =
     Inr (map_chords [''vi'', ''IV'', ''I'', ''V''] 4 sc zero_rng)"
  by (simp add: generateProfessionalChordProgression_def CHORD_PROGRESSIONS_def random_zero_rng
      random_index_def js_index_def parseKey_def strip_final_m_def noteToNumber_def)

lemma progression_dark_zero:
  "generateProfessionalChordProgression (Some ''Dm'') sc Dark st zero_rng =
     Inr (map_chords [''i'', ''VII'', ''VI'', ''VII''] 2 sc zero_rng)"
  by (simp add: generateProfessionalChordProgression_def CHORD_PROGRESSIONS_def random_zero_rng
      random_index_def js_index_def parseKey_def strip_final_m_def noteToNumber_def)

lemma no_progression_for_mood:
  "generateProfessionalChordProgression k sc Melancholic st g = Inl TypeError"
  "generateProfessionalChordProgression k sc Ethereal st g = Inl TypeError"
  "generateProfessionalChordProgression k sc Nostalgic st g = Inl TypeError"
  by (simp_all add: generateProfessionalChordProgression_def CHORD_PROGRESSIONS_def)

lemma structure_slow:
  "createProfessionalStructure st 60 =
     \<lparr>sections = \<lparr>intro = \<lparr>bars = 12\<rparr>, verse = \<lparr>bars = 24\<rparr>, chorus = Some \<lparr>bars = 12\<rparr>,
                  bridge = Some \<lparr>bars = 12\<rparr>, outro = \<lparr>bars = 12\<rparr>\<rparr>,
      totalBars = 72\<rparr>"
  by (simp add: createProfessionalStructure_def js_round_def)

lemma analyze_piano:
  "analyzePromptAdvanced ''piano''
     (getDefaultSettings\<lparr>pace := 60, customPrompt := Some ''piano''\<rparr>) zero_rng =
     Inr \<lparr>key = Some ''Em'', scale = [0, 2, 3, 5, 7, 8, 10],
          chordProgression =
            fst (map_chords [''vi'', ''IV'', ''I'', ''V''] 4 [0, 2, 3, 5, 7, 8, 10] zero_rng),
          songStructure = createProfessionalStructure AmbientTrap 60, tempo = 60,
          a_mood = Dreamy, a_style = AmbientTrap, harmonicComplexity = Medium\<rparr>"
  by (simp add: analyzePromptAdvanced_def words_piano mood_piano style_piano tempo_piano_60
      key_dreamy_zero progression_dreamy_zero getDefaultSettings_def selectScale_def
      scaleByMood_def SCALES_def analyzeHarmonicComplexity_def complexityKeywords_def
      some_includes_def split_beta Let_def del: map_chords.simps)

lemma analyze_dark:
  "pace s = 85 \<Longrightarrow>
   analyzePromptAdvanced ''dark brooding'' s zero_rng =
     Inr \<lparr>key = Some ''Dm'', scale = [0, 1, 3, 5, 7, 8, 10],
          chordProgression =
            fst (map_chords [''i'', ''VII'', ''VI'', ''VII''] 2 [0, 1, 3, 5, 7, 8, 10] zero_rng),
          songStructure = createProfessionalStructure AmbientTrap 85, tempo = 85,
          a_mood = Dark, a_style = AmbientTrap, harmonicComplexity = Medium\<rparr>"
  by (simp add: analyzePromptAdvanced_def words_dark mood_dark style_dark tempo_dark_85
      key_dark_zero progression_dark_zero selectScale_def
      scaleByMood_def SCALES_def analyzeHarmonicComplexity_def complexityKeywords_def
      some_includes_def split_beta Let_def del: map_chords.simps)

lemma analyze_sad: "analyzePromptAdvanced ''sad piano'' s g = Inl TypeError"
  by (simp add: analyzePromptAdvanced_def words_sad mood_sad no_progression_for_mood Let_def
      split_beta)

lemma custom_piano:
  "createCustomPrompt (getDefaultSettings\<lparr>pace := 60, customPrompt := Some ''piano''\<rparr>) =
     ''piano''"
  by (simp add: createCustomPrompt_def trim_def is_space_def)

lemma custom_sad:
  "createCustomPrompt (getDefaultSettings\<lparr>customPrompt := Some ''sad piano''\<rparr>) = ''sad piano''"
  by (simp add: createCustomPrompt_def trim_def is_space_def)

lemma moodMultiplier_Dreamy: "moodMultiplier Dreamy = 6 / 5"
  by (simp add: moodMultiplier_def moodMultipliers_def)

section \<open>The ratio-based structure\<close>

text \<open>
  \<open>generateEvolvedStructure\<close>, the other path that builds a song structure, does
  partition the duration: its first four ratios add up to less than 1.
\<close>

lemma dynamic_duration_ge_90: "90 \<le> calculateDynamicDuration n s"
  by (simp add: calculateDynamicDuration_def Let_def)

lemma structures_index: "structures ! (n mod length structures) \<in> set structures"
  by (rule nth_mem) (simp add: structures_def)

lemma evolved_structure_partitions:
  "partitions (generateEvolvedStructure n s) (real_of_int (calculateDynamicDuration n s))"
proof -
  define d where "d = real_of_int (calculateDynamicDuration n s)"
  have d: "0 < d" using dynamic_duration_ge_90 [of n s] by (simp add: d_def)
  define r where "r = structures ! (n mod length structures)"
  have "r \<in> set structures" unfolding r_def by (rule structures_index)
  then have pos: "0 < r_intro r" "0 < r_verse r" "0 < r_hook r" "0 < r_bridge r"
    and sum: "r_intro r + r_verse r + r_hook r + r_bridge r < 1"
    by (auto simp add: structures_def)
  have "d * r_intro r + d * r_verse r + d * r_hook r + d * r_bridge r =
          d * (r_intro r + r_verse r + r_hook r + r_bridge r)"
    by (simp add: algebra_simps)
  also have "\<dots> < d * 1" using d sum by (rule mult_strict_left_mono [rotated])
  finally have last: "d * r_intro r + d * r_verse r + d * r_hook r + d * r_bridge r < d"
    by simp
  show ?thesis
    using d pos last
    by (simp add: generateEvolvedStructure_def partitions_def positive_range_def Let_def
        d_def [symmetric] r_def [symmetric])
qed

section \<open>Scale selection\<close>

text \<open>
  C2. For every mood the resolver selects exactly one scale: dreamy, melancholic and
  nostalgic give natural minor \<open>[0,2,3,5,7,8,10]\<close>, dark gives phrygian
  \<open>[0,1,3,5,7,8,10]\<close>, uplifting gives major \<open>[0,2,4,5,7,9,11]\<close> and ethereal gives
  dorian \<open>[0,2,3,5,7,9,10]\<close>, whatever the style.
\<close>

theorem selectScale_by_mood:
  "selectScale Dreamy st = [0, 2, 3, 5, 7, 8, 10] \<and>
   selectScale Melancholic st = [0, 2, 3, 5, 7, 8, 10] \<and>
   selectScale Nostalgic st = [0, 2, 3, 5, 7, 8, 10] \<and>
   selectScale Dark st = [0, 1, 3, 5, 7, 8, 10] \<and>
   selectScale Uplifting st = [0, 2, 4, 5, 7, 9, 11] \<and>
   selectScale Ethereal st = [0, 2, 3, 5, 7, 9, 10]"
  by (simp add: selectScale_def scaleByMood_def SCALES_def)

section \<open>Duration\<close>

text \<open>
  C3. For every analysis, every settings and every generation count, the duration in
  seconds computed on either path (\<open>calculateProfessionalDuration\<close> and
  \<open>calculateDynamicDuration\<close>) lies in the closed interval from 90 to 180.
\<close>

theorem duration_in_range:
  "90 \<le> calculateProfessionalDuration a s \<and> calculateProfessionalDuration a s \<le> 180 \<and>
   90 \<le> calculateDynamicDuration n s \<and> calculateDynamicDuration n s \<le> 180"
  by (simp add: calculateProfessionalDuration_def calculateDynamicDuration_def Let_def)

section \<open>Tempo\<close>

lemma tempo_fast_180: "calculateProfessionalTempo [''fast''] 180 = 234"
  unfolding calculateProfessionalTempo_def tempoMultiplier_def
  by (simp only: double_1_3 some_includes_def)
     (subst to_double_ge1 [of 7], simp_all add: round_half_even_def js_round_def)

lemma tempo_slow_60: "calculateProfessionalTempo [''slow''] 60 = 42"
  unfolding calculateProfessionalTempo_def tempoMultiplier_def
  by (simp only: double_0_7 some_includes_def)
     (subst to_double_ge1 [of 5], simp_all add: round_half_even_def js_round_def)

text \<open>
  The request made of the default settings (pace 85, no custom prompt, hence the keyword
  \<open>ambient\<close>): the double product lies just below 59.5 and rounds to 59.
\<close>

lemma tempo_default_request:
  "calculateProfessionalTempo [''create'', ''an'', ''ambient'', ''music'', ''track''] 85 = 59"
  unfolding calculateProfessionalTempo_def tempoMultiplier_def
  by (simp only: double_0_7 some_includes_def)
     (subst to_double_ge1 [of 5], simp_all add: round_half_even_def js_round_def)

lemma words_fast: "prompt_words ''fast'' = [''fast'']"
  by (simp add: prompt_defs)

lemma mood_fast: "extractAdvancedMood [''fast''] = Dreamy"
  by (simp add: extractAdvancedMood_def moodKeywords_def some_includes_def)

lemma analyze_fast_tempo:
  "map_sum id tempo (analyzePromptAdvanced ''fast'' (getDefaultSettings\<lparr>pace := 180\<rparr>) zero_rng) =
     Inr 234"
  by (simp add: analyzePromptAdvanced_def words_fast mood_fast tempo_fast_180 key_dreamy_zero
      progression_dreamy_zero getDefaultSettings_def Let_def split_beta
      del: map_chords.simps)

text \<open>
  C6, at the failing input. The resolved tempo is the rounded product and nothing clamps
  it to the range from 53 to 180: a fast keyword at base tempo 180 resolves to 234, also
  through the whole prompt analysis, and a slow keyword at base tempo 60 resolves to 42.
\<close>

theorem tempo_not_clamped:
  "calculateProfessionalTempo [''fast''] 180 = 234 \<and>
   calculateProfessionalTempo [''slow''] 60 = 42 \<and>
   map_sum id tempo (analyzePromptAdvanced ''fast'' (getDefaultSettings\<lparr>pace := 180\<rparr>) zero_rng) =
     Inr 234"
  by (simp only: tempo_fast_180 tempo_slow_60 analyze_fast_tempo)

section \<open>Reverb and distortion defaults\<close>

text \<open>
  C10. A reverb setting of 0 cannot be told from the default of 70: for every sample,
  every sample sequence and every delay-line state, the reverb with the slider at 0
  returns the same output and the same final state as with the slider at 70, alone and
  inside the whole effects chain. The signal is never dry: on a delay line whose position
  lies inside its buffer, the output at slider 0 is the sample plus 0.7 times the delayed
  sample, and the sample plus 0.28 times the delayed sample is fed back.
\<close>

theorem reverb_zero_is_default:
  "applyReverb x st (settings\<lparr>reverb := 0\<rparr>) = applyReverb x st (settings\<lparr>reverb := 70\<rparr>) \<and>
   applyReverb_seq xs st (settings\<lparr>reverb := 0\<rparr>) =
     applyReverb_seq xs st (settings\<lparr>reverb := 70\<rparr>) \<and>
   applyEffectsChain xs est (settings\<lparr>reverb := 0\<rparr>) =
     applyEffectsChain xs est (settings\<lparr>reverb := 70\<rparr>) \<and>
   (index st < length (buffer st) \<longrightarrow>
      applyReverb x st (settings\<lparr>reverb := 0\<rparr>) =
        Some (x + buffer st ! index st * (7 / 10),
              \<lparr>buffer = (buffer st)[index st := x + buffer st ! index st * (7 / 10) * (4 / 10)],
               index = (index st + 1) mod length (buffer st)\<rparr>))"
  using applyReverb_wet [of st x settings]
  by (simp only: applyReverb_zero_default applyReverb_seq_zero_default
      effects_loop_zero_default applyEffectsChain_def) simp

text \<open>With a delayed sample of 1 the silent input comes out as 0.7, at slider 0 as at 70.\<close>

theorem reverb_zero_is_default_witness:
  "index \<lparr>buffer = [1], index = 0\<rparr> < length (buffer \<lparr>buffer = [1], index = 0\<rparr>) \<and>
   applyReverb 0 \<lparr>buffer = [1], index = 0\<rparr> (getDefaultSettings\<lparr>reverb := 0\<rparr>) =
     Some (7 / 10, \<lparr>buffer = [7 / 25], index = 0\<rparr>) \<and>
   applyReverb 0 \<lparr>buffer = [1], index = 0\<rparr> (getDefaultSettings\<lparr>reverb := 70\<rparr>) =
     Some (7 / 10, \<lparr>buffer = [7 / 25], index = 0\<rparr>)"
proof -
  note t = reverb_zero_is_default
    [of 0 "\<lparr>buffer = [1], index = 0\<rparr>" getDefaultSettings "[]" initializeEffectsChain]
  have wf: "index \<lparr>buffer = [1], index = 0\<rparr> < length (buffer \<lparr>buffer = [1], index = 0\<rparr>)"
    by simp
  from t wf have "applyReverb 0 \<lparr>buffer = [1], index = 0\<rparr> (getDefaultSettings\<lparr>reverb := 0\<rparr>) =
      Some (0 + buffer \<lparr>buffer = [1], index = 0\<rparr> ! index \<lparr>buffer = [1], index = 0\<rparr> * (7 / 10),
            \<lparr>buffer = (buffer \<lparr>buffer = [1], index = 0\<rparr>)
               [index \<lparr>buffer = [1], index = 0\<rparr> :=
                  0 + buffer \<lparr>buffer = [1], index = 0\<rparr> ! index \<lparr>buffer = [1], index = 0\<rparr> *
                    (7 / 10) * (4 / 10)],
             index = (index \<lparr>buffer = [1], index = 0\<rparr> + 1) mod
                     length (buffer \<lparr>buffer = [1], index = 0\<rparr>)\<rparr>)"
    by blast
  then have zero: "applyReverb 0 \<lparr>buffer = [1], index = 0\<rparr> (getDefaultSettings\<lparr>reverb := 0\<rparr>) =
      Some (7 / 10, \<lparr>buffer = [7 / 25], index = 0\<rparr>)"
    by simp
  from t have "applyReverb 0 \<lparr>buffer = [1], index = 0\<rparr> (getDefaultSettings\<lparr>reverb := 0\<rparr>) =
      applyReverb 0 \<lparr>buffer = [1], index = 0\<rparr> (getDefaultSettings\<lparr>reverb := 70\<rparr>)"
    by blast
  with zero have "applyReverb 0 \<lparr>buffer = [1], index = 0\<rparr> (getDefaultSettings\<lparr>reverb := 70\<rparr>) =
      Some (7 / 10, \<lparr>buffer = [7 / 25], index = 0\<rparr>)"
    by (simp only:)
  with wf zero show ?thesis by blast
qed


text \<open>
  C8, at the failing input. With the distortion slider at 0 the amount is not 0 but the
  default 0.2: the sample 1 is not left unchanged, it becomes
  \<open>tanh(1.6) \<times> 0.98\<close>, which is below 0.98.
\<close>

theorem distortion_zero_changes_sample:
  "applyDistortion 1 (getDefaultSettings\<lparr>distortion := 0\<rparr>) = tanh (8 / 5) * (49 / 50) \<and>
   applyDistortion 1 (getDefaultSettings\<lparr>distortion := 0\<rparr>) < 49 / 50 \<and>
   applyDistortion 1 (getDefaultSettings\<lparr>distortion := 0\<rparr>) \<noteq> 1"
proof -
  have "tanh (8 / 5 :: real) < 1" by (rule tanh_real_lt_1)
  then have "tanh (8 / 5 :: real) * (49 / 50) < 49 / 50" by simp
  then show ?thesis by (simp add: applyDistortion_def)
qed

section \<open>The chord progression\<close>

text \<open>
  C1, at the failing input. A prompt with the word \<open>sad\<close> resolves to the melancholic
  mood, for which the progression table has no entry: generation throws a
  \<open>TypeError\<close>, whatever the random draws. The same holds for every key and scale
  with the moods melancholic, ethereal and nostalgic.
\<close>

theorem melancholic_prompt_throws:
  "generateEnhancedFallback (getDefaultSettings\<lparr>customPrompt := Some ''sad piano''\<rparr>) g =
     Inl TypeError \<and>
   generateProfessionalChordProgression k sc Melancholic st g = Inl TypeError \<and>
   generateProfessionalChordProgression k sc Ethereal st g = Inl TypeError \<and>
   generateProfessionalChordProgression k sc Nostalgic st g = Inl TypeError"
  by (simp add: generateEnhancedFallback_def custom_sad analyze_sad no_progression_for_mood)

text \<open>
  C7, at the failing input. The chord \<open>V\<close> in E natural minor reads its fifth at
  \<open>scale[8]\<close>, outside the seven-note scale: the third interval is \<open>NaN\<close>. In the
  progression generated for the prompt \<open>piano\<close> three of the four chords carry a
  \<open>NaN\<close> interval.
\<close>

theorem chord_intervals_NaN:
  "c_intervals (fst (romanToChord ''V'' 4 (selectScale Dreamy st) g)) =
     [Some 11, Some 2, None] \<and>
   map_sum id (\<lambda>m. map intervals (chordProgression (m_analysis m)))
     (generateEnhancedFallback (getDefaultSettings\<lparr>pace := 60, customPrompt := Some ''piano''\<rparr>)
        zero_rng) =
     Inr [ [Some 0, None, None], [Some 9, Some 0, None], [Some 4, Some 7, Some 11],
          [Some 11, Some 2, None] ]"
  by (simp add: V_in_E_minor generateEnhancedFallback_def custom_piano analyze_piano
      chords_vi_IV_I_V Let_def del: map_chords.simps)

section \<open>The mood of the analysis\<close>

text \<open>
  C9, as stated, fails: with \<open>settings.mood = uplifting\<close> and the prompt
  \<open>dark brooding\<close> the analysis resolves the mood dark.
\<close>

theorem explicit_mood_counterexample:
  "map_sum id a_mood
     (analyzePromptAdvanced ''dark brooding''
        (getDefaultSettings\<lparr>mood := Uplifting, customPrompt := Some ''dark brooding''\<rparr>)
        zero_rng) = Inr Dark \<and>
   Dark \<noteq> mood (getDefaultSettings\<lparr>mood := Uplifting, customPrompt := Some ''dark brooding''\<rparr>)"
  by (simp add: analyze_dark getDefaultSettings_def del: map_chords.simps)

lemma extractAdvancedMood_first_match:
  "extractAdvancedMood ws =
     (if some_includes ws [''dreamy'', ''ethereal'', ''floating'', ''soft'', ''gentle'',
                           ''peaceful'', ''serene'', ''ambient''] then Dreamy
      else if some_includes ws [''dark'', ''mysterious'', ''brooding'', ''ominous'', ''gothic'',
                                ''sinister'', ''moody'', ''shadow''] then Dark
      else if some_includes ws [''uplifting'', ''bright'', ''happy'', ''energetic'',
                                ''positive'', ''euphoric'', ''joyful''] then Uplifting
      else if some_includes ws [''sad'', ''melancholic'', ''tragic'', ''somber'', ''wistful'',
                                ''nostalgic'', ''longing''] then Melancholic
      else if some_includes ws [''ethereal'', ''ghostly'', ''spiritual'', ''otherworldly'',
                                ''transcendent'', ''celestial''] then Ethereal
      else if some_includes ws [''nostalgic'', ''vintage'', ''retro'', ''memory'',
                                ''reminiscent'', ''yearning''] then Nostalgic
      else Dreamy)"
  by (simp add: extractAdvancedMood_def moodKeywords_def)

lemma progression_error:
  "generateProfessionalChordProgression k sc m st g = Inl e \<Longrightarrow> e = TypeError"
  by (auto simp add: generateProfessionalChordProgression_def Let_def split_beta
      split: option.splits)

lemma analyze_mood_or_throw:
  "(case analyzePromptAdvanced prompt settings g of
      Inl e \<Rightarrow> e = TypeError
    | Inr a \<Rightarrow> a_mood a = extractAdvancedMood (prompt_words prompt))"
  by (auto simp add: analyzePromptAdvanced_def Let_def split_beta
      split: sum.splits dest: progression_error)

lemma analyze_ignores_mood:
  "analyzePromptAdvanced prompt (settings\<lparr>mood := m\<rparr>) g =
   analyzePromptAdvanced prompt settings g"
  by (simp add: analyzePromptAdvanced_def)

lemma words_happy_dark: "prompt_words ''happy dark'' = [''happy'', ''dark'']"
  by (simp add: prompt_defs)

lemma style_happy_dark: "extractMusicStyle [''happy'', ''dark''] = AmbientTrap"
  by (simp add: extractMusicStyle_def some_includes_def)

lemma tempo_happy_dark_85: "calculateProfessionalTempo [''happy'', ''dark''] 85 = 85"
  by (simp add: calculateProfessionalTempo_def tempoMultiplier_def some_includes_def
      double_85 js_round_def)

lemma mood_happy_dark: "extractAdvancedMood [''happy'', ''dark''] = Dark"
  by (simp add: extractAdvancedMood_def moodKeywords_def some_includes_def)

lemma analyze_happy_dark:
  "pace s = 85 \<Longrightarrow>
   analyzePromptAdvanced ''happy dark'' s zero_rng =
     Inr \<lparr>key = Some ''Dm'', scale = [0, 1, 3, 5, 7, 8, 10],
          chordProgression =
            fst (map_chords [''i'', ''VII'', ''VI'', ''VII''] 2 [0, 1, 3, 5, 7, 8, 10] zero_rng),
          songStructure = createProfessionalStructure AmbientTrap 85, tempo = 85,
          a_mood = Dark, a_style = AmbientTrap, harmonicComplexity = Medium\<rparr>"
  by (simp add: analyzePromptAdvanced_def words_happy_dark mood_happy_dark style_happy_dark
      tempo_happy_dark_85 key_dark_zero progression_dark_zero selectScale_def
      scaleByMood_def SCALES_def analyzeHarmonicComplexity_def complexityKeywords_def
      some_includes_def split_beta Let_def del: map_chords.simps)

text \<open>
  C9, amended. The mood that the prompt analysis resolves comes from the prompt alone.
  It is the first keyword family, in the order dreamy, dark, uplifting, melancholic,
  ethereal, nostalgic, with a word among the words of the prompt, and dreamy when no
  family has one. The analysis either returns with that mood or throws a \<open>TypeError\<close>,
  and it never reads \<open>settings.mood\<close>: any other value of it gives the same result.
\<close>

theorem mood_from_prompt_only:
  "extractAdvancedMood ws =
     (if some_includes ws [''dreamy'', ''ethereal'', ''floating'', ''soft'', ''gentle'',
                           ''peaceful'', ''serene'', ''ambient''] then Dreamy
      else if some_includes ws [''dark'', ''mysterious'', ''brooding'', ''ominous'', ''gothic'',
                                ''sinister'', ''moody'', ''shadow''] then Dark
      else if some_includes ws [''uplifting'', ''bright'', ''happy'', ''energetic'',
                                ''positive'', ''euphoric'', ''joyful''] then Uplifting
      else if some_includes ws [''sad'', ''melancholic'', ''tragic'', ''somber'', ''wistful'',
                                ''nostalgic'', ''longing''] then Melancholic
      else if some_includes ws [''ethereal'', ''ghostly'', ''spiritual'', ''otherworldly'',
                                ''transcendent'', ''celestial''] then Ethereal
      else if some_includes ws [''nostalgic'', ''vintage'', ''retro'', ''memory'',
                                ''reminiscent'', ''yearning''] then Nostalgic
      else Dreamy) \<and>
   (case analyzePromptAdvanced prompt settings g of
      Inl e \<Rightarrow> e = TypeError
    | Inr a \<Rightarrow> a_mood a = extractAdvancedMood (prompt_words prompt)) \<and>
   analyzePromptAdvanced prompt (settings\<lparr>mood := m\<rparr>) g =
     analyzePromptAdvanced prompt settings g"
  by (intro conjI extractAdvancedMood_first_match analyze_mood_or_throw analyze_ignores_mood)

text \<open>
  The prompt \<open>happy dark\<close> has a word of the dark and a word of the uplifting family:
  the analysis resolves dark, the family listed first, also when \<open>settings.mood\<close> is
  uplifting.
\<close>

theorem mood_from_prompt_only_witness:
  "extractAdvancedMood [''happy'', ''dark''] = Dark \<and>
   a_mood \<lparr>key = Some ''Dm'', scale = [0, 1, 3, 5, 7, 8, 10],
          chordProgression =
            fst (map_chords [''i'', ''VII'', ''VI'', ''VII''] 2 [0, 1, 3, 5, 7, 8, 10] zero_rng),
          songStructure = createProfessionalStructure AmbientTrap 85, tempo = 85,
          a_mood = Dark, a_style = AmbientTrap, harmonicComplexity = Medium\<rparr> =
     extractAdvancedMood (prompt_words ''happy dark'') \<and>
   analyzePromptAdvanced ''happy dark'' (getDefaultSettings\<lparr>mood := Uplifting\<rparr>) zero_rng =
     analyzePromptAdvanced ''happy dark'' getDefaultSettings zero_rng"
proof -
  have h: "analyzePromptAdvanced ''happy dark'' getDefaultSettings zero_rng =
     Inr \<lparr>key = Some ''Dm'', scale = [0, 1, 3, 5, 7, 8, 10],
          chordProgression =
            fst (map_chords [''i'', ''VII'', ''VI'', ''VII''] 2 [0, 1, 3, 5, 7, 8, 10] zero_rng),
          songStructure = createProfessionalStructure AmbientTrap 85, tempo = 85,
          a_mood = Dark, a_style = AmbientTrap, harmonicComplexity = Medium\<rparr>"
    by (rule analyze_happy_dark) (simp add: getDefaultSettings_def)
  show ?thesis
    using mood_from_prompt_only
      [of "[''happy'', ''dark'']" "''happy dark''" getDefaultSettings zero_rng Uplifting]
    by (simp add: h some_includes_def del: map_chords.simps)
qed

section \<open>The song structure\<close>

text \<open>
  C4, at the failing input. For pace 60 and the prompt \<open>piano\<close> the duration is 180
  seconds while the first four sections, laid out by bar counts, end at 240 seconds:
  the outro runs from 240 to 180, so the sections do not partition the duration.
\<close>

theorem outro_before_bridge_end:
  "map_sum id m_duration
     (generateEnhancedFallback (getDefaultSettings\<lparr>pace := 60, customPrompt := Some ''piano''\<rparr>)
        zero_rng) = Inr 180 \<and>
   map_sum id m_structure
     (generateEnhancedFallback (getDefaultSettings\<lparr>pace := 60, customPrompt := Some ''piano''\<rparr>)
        zero_rng) =
     Inr (Some \<lparr>s_intro = \<lparr>range_start = 0, range_end = 48\<rparr>,
                s_verse = \<lparr>range_start = 48, range_end = 144\<rparr>,
                s_hook = \<lparr>range_start = 144, range_end = 192\<rparr>,
                s_bridge = \<lparr>range_start = 192, range_end = 240\<rparr>,
                s_outro = \<lparr>range_start = 240, range_end = 180\<rparr>\<rparr>) \<and>
   \<not> partitions \<lparr>s_intro = \<lparr>range_start = 0, range_end = 48\<rparr>,
                s_verse = \<lparr>range_start = 48, range_end = 144\<rparr>,
                s_hook = \<lparr>range_start = 144, range_end = 192\<rparr>,
                s_bridge = \<lparr>range_start = 192, range_end = 240\<rparr>,
                s_outro = \<lparr>range_start = 240, range_end = 180\<rparr>\<rparr> 180"
  by (simp add: generateEnhancedFallback_def custom_piano analyze_piano structure_slow
      calculateProfessionalDuration_def moodMultiplier_Dreamy createProfessionalSongStructure_def
      partitions_def positive_range_def Let_def del: map_chords.simps)

section \<open>The WAV encoders\<close>

lemma alloc_frontier: "alloc n = frontier [] n"
  by (simp add: alloc_def frontier_def)

lemma write_at_frontier:
  assumes "length pre = off" and "length bs \<le> k"
  shows "write_at (frontier pre k) off bs = frontier (pre @ bs) (k - length bs)"
  using assms by (simp add: write_at_def frontier_def)

lemma write_string_frontier:
  "length pre = off \<Longrightarrow> length s \<le> k \<Longrightarrow>
   write_string (frontier pre k) s off = frontier (pre @ map of_char s) (k - length s)"
  by (simp add: write_string_def write_at_frontier)

lemma writeUInt32LE_frontier:
  "length pre = off \<Longrightarrow> 4 \<le> k \<Longrightarrow> 0 \<le> v \<Longrightarrow> v \<le> 4294967295 \<Longrightarrow>
   writeUInt32LE (frontier pre k) v off = Inr (frontier (pre @ le32 v) (k - 4))"
  using write_at_frontier [of pre off "le32 v" k]
  by (simp add: writeUInt32LE_def le32_def frontier_def)

lemma writeUInt16LE_frontier:
  "length pre = off \<Longrightarrow> 2 \<le> k \<Longrightarrow> 0 \<le> v \<Longrightarrow> v \<le> 65535 \<Longrightarrow>
   writeUInt16LE (frontier pre k) v off = Inr (frontier (pre @ le16 v) (k - 2))"
  using write_at_frontier [of pre off "le16 v" k]
  by (simp add: writeUInt16LE_def le16_def frontier_def)

lemma writeInt16LE_frontier:
  "length pre = off \<Longrightarrow> 2 \<le> k \<Longrightarrow> - 32768 \<le> v \<Longrightarrow> v \<le> 32767 \<Longrightarrow>
   writeInt16LE (frontier pre k) v off = Inr (frontier (pre @ le16 (js_trunc v)) (k - 2))"
  using write_at_frontier [of pre off "le16 (js_trunc v)" k]
  by (simp add: writeInt16LE_def le16_def frontier_def)

lemma bind_err_Inr: "bind_err (Inr x) f = f x"
  by (simp add: bind_err_def)

lemma length_le16: "length (le16 v) = 2"
  by (simp add: le16_def)

lemma length_le32: "length (le32 v) = 4"
  by (simp add: le32_def)

text \<open>
  The thirteen writes of the header fill the first 44 bytes with the canonical header,
  provided the sizes fit their 32-bit fields.
\<close>

lemma write_header_canonical:
  assumes "0 \<le> sr" and "sr * 2 \<le> 4294967295" and "36 + int n * 2 \<le> 4294967295"
  shows "write_header (alloc (44 + n * 2)) n sr = Inr (frontier (wav_header n sr) (n * 2))"
  using assms
  by (simp add: write_header_def alloc_frontier write_string_frontier writeUInt32LE_frontier
      writeUInt16LE_frontier bind_err_Inr length_le16 length_le32 wav_header_def Let_def
      mult.commute)

lemma clamp_scaled_range:
  "- 32767 \<le> max (- 1) (min 1 x) * 32767 \<and> max (- 1) (min 1 x) * (32767 :: real) \<le> 32767"
  by (simp add: max_def min_def)

lemma js_round_of_int: "js_round (real_of_int z) = z"
  unfolding js_round_def by linarith

lemma js_trunc_of_int: "js_trunc (real_of_int z) = z"
  by (simp add: js_trunc_def)

lemma js_round_clamp_range:
  "- 32767 \<le> js_round (max (- 1) (min 1 x) * 32767) \<and>
   js_round (max (- 1) (min 1 x) * 32767) \<le> 32767"
proof -
  have "js_round (real_of_int (- 32767)) \<le> js_round (max (- 1) (min 1 x) * 32767)"
    using clamp_scaled_range [of x] by (intro js_round_mono) simp
  moreover have "js_round (max (- 1) (min 1 x) * 32767) \<le> js_round (real_of_int 32767)"
    using clamp_scaled_range [of x] by (intro js_round_mono) simp
  ultimately show ?thesis by (simp only: js_round_of_int)
qed

text \<open>The writing of the samples, by induction on the samples still to be written.\<close>

lemma pro_samples_frontier:
  "length pre = 44 + i * 2 \<Longrightarrow>
   pro_samples (frontier pre (length xs * 2)) i xs = Inr (pre @ concat (map pcm16 xs))"
proof (induction xs arbitrary: pre i)
  case Nil
  then show ?case by (simp add: frontier_def)
next
  case (Cons x xs)
  let ?z = "js_round (max (- 1) (min 1 x) * 32767)"
  have range: "- 32768 \<le> real_of_int ?z" "real_of_int ?z \<le> 32767"
    using js_round_clamp_range [of x] by linarith+
  have step: "writeInt16LE (frontier pre (length (x # xs) * 2)) (real_of_int ?z) (44 + i * 2) =
      Inr (frontier (pre @ pcm16 x) (length xs * 2))"
    using writeInt16LE_frontier [OF Cons.prems _ range, of "length (x # xs) * 2"]
    by (simp add: js_trunc_of_int pcm16_def)
  have len: "length (pre @ pcm16 x) = 44 + Suc i * 2"
    using Cons.prems by (simp add: pcm16_def length_le16)
  show ?case
    using Cons.IH [OF len] step
    by (simp add: bind_err_Inr Let_def del: length_Cons)
qed

lemma gen_samples_frontier:
  "length pre = 44 + i * 2 \<Longrightarrow>
   gen_samples (frontier pre (length xs * 2)) i xs = Inr (pre @ concat (map trunc16 xs))"
proof (induction xs arbitrary: pre i)
  case Nil
  then show ?case by (simp add: frontier_def)
next
  case (Cons x xs)
  let ?v = "max (- 1) (min 1 x) * 32767"
  have range: "- 32768 \<le> ?v" "?v \<le> 32767"
    using clamp_scaled_range [of x] by linarith+
  have step: "writeInt16LE (frontier pre (length (x # xs) * 2)) ?v (44 + i * 2) =
      Inr (frontier (pre @ trunc16 x) (length xs * 2))"
    using writeInt16LE_frontier [OF Cons.prems _ range, of "length (x # xs) * 2"]
    by (simp add: trunc16_def)
  have len: "length (pre @ trunc16 x) = 44 + Suc i * 2"
    using Cons.prems by (simp add: trunc16_def length_le16)
  show ?case
    using Cons.IH [OF len] step
    by (simp add: bind_err_Inr Let_def del: length_Cons)
qed

text \<open>
  \<open>ProfessionalAudioRenderer.createWAVBuffer\<close> produces the canonical header followed
  by the rounded samples; \<open>MusicGenerator.createWAVBuffer\<close> produces the same header
  followed by the truncated samples.
\<close>

lemma createWAVBuffer_canonical:
  assumes "0 \<le> sr" and "sr * 2 \<le> 4294967295"
    and "36 + int (length xs) * 2 \<le> 4294967295"
  shows "createWAVBuffer xs sr = Inr (wav_header (length xs) sr @ concat (map pcm16 xs))"
  using assms
  by (simp add: createWAVBuffer_def write_header_canonical bind_err_Inr pro_samples_frontier
      wav_header_def length_le16 length_le32 Let_def)

lemma createWAVBuffer_generator_layout:
  assumes "0 \<le> sr" and "sr * 2 \<le> 4294967295"
    and "36 + int (length xs) * 2 \<le> 4294967295"
  shows "createWAVBuffer_generator xs sr =
           Inr (wav_header (length xs) sr @ concat (map trunc16 xs))"
  using assms
  by (simp add: createWAVBuffer_generator_def write_header_canonical bind_err_Inr
      gen_samples_frontier wav_header_def length_le16 length_le32 Let_def)

lemma length_wav_header: "length (wav_header n sr) = 44"
  by (simp add: wav_header_def length_le16 length_le32)

lemma pcm16_half: "pcm16 (1 / 2) = [0, 64]"
  by (simp add: pcm16_def le16_def js_round_def)

lemma trunc16_half: "trunc16 (1 / 2) = [255, 63]"
  by (simp add: trunc16_def le16_def js_trunc_def)

text \<open>
  C5, at the failing input. For the one-sample array \<open>[0.5]\<close> at 44100 Hz the
  generator's encoder writes the canonical header followed by the bytes \<open>FF 3F\<close>
  (16383, the scaled sample 16383.5 truncated), where rounding gives \<open>00 40\<close>
  (16384), the bytes that the professional renderer's encoder writes.
\<close>

theorem generator_encoder_truncates:
  "createWAVBuffer_generator [1 / 2] 44100 = Inr (wav_header 1 44100 @ [255, 63]) \<and>
   createWAVBuffer [1 / 2] 44100 = Inr (wav_header 1 44100 @ [0, 64]) \<and>
   pcm16 (1 / 2) = [0, 64]"
  using createWAVBuffer_generator_layout [of 44100 "[1 / 2]"]
    createWAVBuffer_canonical [of 44100 "[1 / 2]"]
  by (simp add: pcm16_half trunc16_half)

end
